theory Spec2Isabelle
  imports Main
begin

section \<open>Strings and objects shared by the scripts\<close>

text \<open>
  A JavaScript or Python string is a \<^typ>\<open>string\<close>: one \<^typ>\<open>char\<close> per code unit below 256.
  The objects the scripts exchange (\<^verbatim>\<open>{ notes: ..., videoId: ... }\<close>, \<^verbatim>\<open>{ error: ... }\<close>) have
  string-valued properties only; an object is the list of its properties in the order the
  literal writes them. Reading a property that is not there gives \<^verbatim>\<open>undefined\<close>,
  here \<^const>\<open>None\<close>.
\<close>

type_synonym js_object = "(string \<times> string) list"

definition property :: "js_object \<Rightarrow> string \<Rightarrow> string option" where
  "property obj k = map_of obj k"

text \<open>
  Truthiness of a value that is a string, \<^verbatim>\<open>undefined\<close> or \<^verbatim>\<open>null\<close>:
  only a non-empty string passes \<^verbatim>\<open>if (x)\<close>.
\<close>

definition truthy :: "string option \<Rightarrow> bool" where
  "truthy v = (case v of None \<Rightarrow> False | Some s \<Rightarrow> s \<noteq> [])"

text \<open>\<^verbatim>\<open>a || b\<close> where \<^verbatim>\<open>b\<close> is a string literal.\<close>

definition or_else :: "string option \<Rightarrow> string \<Rightarrow> string" where
  "or_else v d = (case v of None \<Rightarrow> d | Some s \<Rightarrow> if s = [] then d else s)"

text \<open>
  \<^verbatim>\<open>String.prototype.trim\<close> on the characters of the model: tab, line feed, vertical tab,
  form feed, carriage return, space and the no-break space are stripped from both ends.
\<close>

definition is_space :: "char \<Rightarrow> bool" where
  "is_space c = (c = CHR 0x09 \<or> c = CHR 0x0A \<or> c = CHR 0x0B \<or> c = CHR 0x0C \<or>
                 c = CHR 0x0D \<or> c = CHR 0x20 \<or> c = CHR 0xA0)"

definition trim :: "string \<Rightarrow> string" where
  "trim s = rev (dropWhile is_space (rev (dropWhile is_space s)))"


section \<open>The helper process: get\_transcript.py\<close>

text \<open>
  \<^verbatim>\<open>YouTubeTranscriptApi.get_transcript(video_id)\<close> returns a list of entries
  (\<^verbatim>\<open>text\<close>, \<^verbatim>\<open>start\<close>, \<^verbatim>\<open>duration\<close>) or raises; the script reads the \<^verbatim>\<open>text\<close> of each.
  The times are floats the script never looks at, so their type is left open.
\<close>

record 't entry =
  entry_text :: string
  start :: 't
  duration :: 't

datatype 't api_result = Returns "'t entry list" | Raises string

text \<open>
  What one run of the script leaves behind:
  \<^item> \<open>Printed texts\<close>: \<^verbatim>\<open>print(json.dumps(texts))\<close> ran, so standard output holds the JSON
    encoding of \<open>texts\<close> and a newline, and the exit status is 0;
  \<^item> \<open>Exit1 msg\<close>: the \<^verbatim>\<open>except\<close> branch wrote \<open>msg\<close> to standard error and called
    \<^verbatim>\<open>sys.exit(1)\<close>;
  \<^item> \<open>IndexError_argv\<close>: \<^verbatim>\<open>sys.argv[1]\<close>, which stands before the \<^verbatim>\<open>try\<close>, raised;
    Python prints a traceback to standard error and exits with status 1.
\<close>

datatype py_run = Printed string | Exit1 string | IndexError_argv

fun exit_status :: "py_run \<Rightarrow> nat" where
  "exit_status (Printed _) = 0"
| "exit_status (Exit1 _) = 1"
| "exit_status IndexError_argv = 1"

text \<open>\<^verbatim>\<open>sep.join(xs)\<close>\<close>

fun join :: "string \<Rightarrow> string list \<Rightarrow> string" where
  "join sep [] = []"
| "join sep [x] = x"
| "join sep (x # y # ys) = x @ sep @ join sep (y # ys)"

text \<open>
  The script. \<open>argv\<close> is \<^verbatim>\<open>sys.argv\<close> (the script's name first); \<open>str(e)\<close> of the exception
  raised is the string \<^const>\<open>Raises\<close> carries.
\<close>

definition get_transcript :: "(string \<Rightarrow> 't api_result) \<Rightarrow> string list \<Rightarrow> py_run" where
  "get_transcript api argv =
     (case argv of
        _ # video_id # _ \<Rightarrow>
          (case api video_id of
             Returns transcript \<Rightarrow> Printed (join '' '' (map entry_text transcript))
           | Raises e \<Rightarrow> Exit1 (''Error: '' @ e))
      | _ \<Rightarrow> IndexError_argv)"


section \<open>The server: the /transcript route of index.js\<close>

text \<open>
  The route talks to three things outside the script, which the model takes as its
  environment:
  \<^item> \<open>shell\<close>: what a command line does when the shell that \<^verbatim>\<open>child_process.exec\<close> spawns
    runs it and nothing stops it, a \<open>command_run\<close>;
  \<^item> \<open>JSON_parse\<close>: \<^verbatim>\<open>JSON.parse\<close> followed by the conversion to a string that the
    template literal of the prompt applies to the parsed value, the only use the route
    makes of it. \<^const>\<open>None\<close>: \<^verbatim>\<open>JSON.parse\<close> throws a \<^verbatim>\<open>SyntaxError\<close>.
  \<^item> \<open>generateContent\<close>: the three steps \<^verbatim>\<open>model.generateContent(prompt)\<close>,
    \<^verbatim>\<open>await result.response\<close>, \<^verbatim>\<open>response.text()\<close> inside the \<^verbatim>\<open>try\<close>. \<open>Text s\<close>: they
    give the string \<open>s\<close>. \<open>Throws e\<close>: one of them throws or rejects, also when the client
    library or the runtime gives up waiting for the provider. \<open>Pending\<close>: the promise never
    settles.
\<close>

text \<open>
  A run of a command line. \<open>shell_exit\<close> is the exit status of the shell, which is the
  status of the last command of the line; \<^const>\<open>None\<close>: the shell never exits. \<open>helper_exit\<close> is
  the exit status of the get\_transcript.py process the line started; it is the shell's when
  the line holds nothing but the call of the helper, and need not be when the video id put
  into the line brings shell syntax with it. \<open>run_ms\<close> is the time the run takes in
  milliseconds, \<open>out\<close> and \<open>err\<close> are what it writes to standard output and standard error.
\<close>

record command_run =
  helper_exit :: "nat option"
  shell_exit :: "nat option"
  run_ms :: nat
  out :: string
  err :: string

text \<open>
  The two options of \<^verbatim>\<open>child_process.exec\<close> that decide whether and how its callback runs,
  and their defaults: no timeout, and a buffer of 1024 * 1024 bytes for each stream.
\<close>

record exec_options =
  timeout :: nat
  maxBuffer :: nat

definition exec_defaults :: exec_options where
  "exec_defaults = \<lparr>timeout = 0, maxBuffer = 1024 * 1024\<rparr>"

text \<open>The bytes of a string in UTF-8: two for a character from 128 on, one otherwise.\<close>

definition byte_length :: "string \<Rightarrow> nat" where
  "byte_length s = length s + length (filter digit7 s)"

text \<open>
  What the callback of \<^verbatim>\<open>exec\<close> gets. \<open>Callback error stdout stderr\<close>: the callback runs;
  \<open>error\<close> is \<^const>\<open>None\<close> for \<^verbatim>\<open>null\<close>. \<open>NoCallback\<close>: it never runs.
\<close>

datatype exec_outcome = Callback "string option" string string | NoCallback

text \<open>
  \<^verbatim>\<open>child_process.exec\<close> with given options on a run. A stream that outgrows \<open>maxBuffer\<close>
  ends the child with an error (the output handed over is cut off there; the route does not
  read it in that case, and the model hands over all of it). With a timeout other than 0, a
  run that takes longer is killed and reported as an error. Otherwise the callback runs when
  the shell exits, with \<^verbatim>\<open>error\<close> \<^verbatim>\<open>null\<close> exactly for status 0, and never if it never exits.
\<close>

definition child_process_exec :: "exec_options \<Rightarrow> command_run \<Rightarrow> exec_outcome" where
  "child_process_exec options r =
     (if maxBuffer options < byte_length (out r) \<or> maxBuffer options < byte_length (err r)
      then Callback (Some ''maxBuffer length exceeded'') (out r) (err r)
      else if timeout options \<noteq> 0 \<and> (shell_exit r = None \<or> timeout options < run_ms r)
      then Callback (Some ''Command failed'') (out r) (err r)
      else
        (case shell_exit r of
           None \<Rightarrow> NoCallback
         | Some status \<Rightarrow>
             if status = 0 then Callback None (out r) (err r)
             else Callback (Some ''Command failed'') (out r) (err r)))"

datatype gen_outcome = Text string | Throws string | Pending

record backend =
  shell :: "string \<Rightarrow> command_run"
  JSON_parse :: "string \<Rightarrow> string option"
  generateContent :: "string \<Rightarrow> gen_outcome"

text \<open>
  \<^verbatim>\<open>exec(command, callback)\<close> as index.js calls it: a command and a callback, no options,
  so the defaults hold.
\<close>

definition exec :: "backend \<Rightarrow> string \<Rightarrow> exec_outcome" where
  "exec env command = child_process_exec exec_defaults (shell env command)"

text \<open>The calls that leave the process, in the order the route makes them.\<close>

datatype call = Exec string | GenerateContent string

text \<open>
  What the client of one request gets: a response (status and JSON body), nothing
  because the route is still waiting on a call that never completes, or nothing
  because an exception left the \<^verbatim>\<open>exec\<close> callback before any response was written.
\<close>

datatype reply = Responded nat js_object | Unanswered | Uncaught string

definition prompt_for :: "string \<Rightarrow> string" where
  "prompt_for transcript =
     ''Summarize the following YouTube transcript into short, clear bullet-point notes:''
       @ [CHR 0x0A, CHR 0x0A] @ transcript"

text \<open>
  The callback the route hands to \<^verbatim>\<open>exec\<close>, run with \<^verbatim>\<open>(error, stdout, stderr)\<close>.
  \<^verbatim>\<open>JSON.parse(stdout.trim())\<close> stands between the \<^verbatim>\<open>if (error)\<close> branch and the
  \<^verbatim>\<open>try\<close> block, so what it throws is caught by nothing. The two listings of index.js in
  the repository differ in one line, the body of the successful response, which is the
  parameter \<open>success\<close>.
\<close>

definition exec_callback ::
  "(string \<Rightarrow> string \<Rightarrow> js_object) \<Rightarrow> backend \<Rightarrow> string \<Rightarrow>
     string option \<Rightarrow> string \<Rightarrow> string \<Rightarrow> reply \<times> call list" where
  "exec_callback success env videoId error stdout stderr =
     (if error \<noteq> None
      then (Responded 500 [(''error'', ''Failed to fetch transcript'')], [])
      else
        (case JSON_parse env (trim stdout) of
           None \<Rightarrow> (Uncaught ''SyntaxError'', [])
         | Some transcript \<Rightarrow>
             (let prompt = prompt_for transcript in
                (case generateContent env prompt of
                   Text summary \<Rightarrow>
                     (Responded 200 (success summary videoId), [GenerateContent prompt])
                 | Throws apiError \<Rightarrow>
                     (Responded 500 [(''error'', ''Failed to generate notes using Gemini'')],
                      [GenerateContent prompt])
                 | Pending \<Rightarrow> (Unanswered, [GenerateContent prompt])))))"

text \<open>
  The route. \<open>videoId\<close> is \<^verbatim>\<open>req.query.videoId\<close>: \<^const>\<open>None\<close> when the query string has no
  such parameter. \<^verbatim>\<open>if (!videoId)\<close> sends the absent and the empty id to the 400
  response before anything else runs. (A repeated parameter, which Express hands over as
  an array, is not a value of this type.)
\<close>

definition command_for :: "string \<Rightarrow> string" where
  "command_for videoId = ''python get_transcript.py '' @ videoId"

definition transcript_route ::
  "(string \<Rightarrow> string \<Rightarrow> js_object) \<Rightarrow> backend \<Rightarrow> string option \<Rightarrow> reply \<times> call list" where
  "transcript_route success env query_videoId =
     (case query_videoId of
        None \<Rightarrow> (Responded 400 [(''error'', ''videoId is required'')], [])
      | Some videoId \<Rightarrow>
          if videoId = [] then (Responded 400 [(''error'', ''videoId is required'')], [])
          else
            (case exec env (command_for videoId) of
               NoCallback \<Rightarrow> (Unanswered, [Exec (command_for videoId)])
             | Callback error stdout stderr \<Rightarrow>
                 (let r = exec_callback success env videoId error stdout stderr
                  in (fst r, Exec (command_for videoId) # snd r))))"

text \<open>
  index.js as listed in documentation/AI\_Notes\_Chrome\_Extension\_Documentation.md:
  \<^verbatim>\<open>res.json({ notes: summary })\<close>.
\<close>

definition app_get_transcript_doc :: "backend \<Rightarrow> string option \<Rightarrow> reply \<times> call list" where
  "app_get_transcript_doc = transcript_route (\<lambda>summary videoId. [(''notes'', summary)])"

text \<open>
  index.js as listed in the comprehensive documentation (unnamed/part\_000):
  \<^verbatim>\<open>res.json({ notes: summary, videoId })\<close>.
\<close>

definition app_get_transcript :: "backend \<Rightarrow> string option \<Rightarrow> reply \<times> call list" where
  "app_get_transcript =
     transcript_route (\<lambda>summary videoId. [(''notes'', summary), (''videoId'', videoId)])"


section \<open>The bridge: the message listener of content.js\<close>

text \<open>
  The page the content script runs in gives the listener two things: the \<^verbatim>\<open>v\<close> parameter
  of \<^verbatim>\<open>window.location.search\<close> (\<^const>\<open>None\<close> is the \<^verbatim>\<open>null\<close> that \<^verbatim>\<open>URLSearchParams.get\<close>
  returns when there is none) and what \<^verbatim>\<open>fetch(url).then(res => res.json())\<close> does:
  \<^item> \<open>Json data\<close>: the body parsed to the object \<open>data\<close>, whatever the status;
  \<^item> \<open>Rejected\<close>: \<^verbatim>\<open>fetch\<close> or \<^verbatim>\<open>res.json()\<close> rejected, so \<^verbatim>\<open>.catch\<close> runs;
  \<^item> \<open>Unsettled\<close>: the promise never settles (the call carries no abort signal).
\<close>

datatype fetch_outcome = Json js_object | Rejected | Unsettled

record page =
  v_param :: "string option"
  fetch :: "string \<Rightarrow> fetch_outcome"

text \<open>
  What the listener does for the popup: it calls \<^verbatim>\<open>sendResponse\<close> with an object, or it
  returns \<^verbatim>\<open>true\<close> and the channel stays open with no response yet, or the message is not
  for it.
\<close>

datatype bridge_reply = SendResponse js_object | Waiting | Ignored

definition url_for :: "string \<Rightarrow> string" where
  "url_for videoId = ''http://localhost:3000/transcript?videoId='' @ videoId"

text \<open>The \<^verbatim>\<open>.then(data => ...)\<close> step; \<open>videoId\<close> is the one read from the page.\<close>

definition on_data :: "string \<Rightarrow> js_object \<Rightarrow> js_object" where
  "on_data videoId data =
     (case property data ''notes'' of
        None \<Rightarrow> [(''error'', or_else (property data ''error'') ''No notes returned.'')]
      | Some notes \<Rightarrow>
          if notes = [] then [(''error'', or_else (property data ''error'') ''No notes returned.'')]
          else [(''notes'', notes), (''videoId'', videoId)])"

text \<open>The listener: its reply and the URLs it fetched.\<close>

definition onMessage :: "page \<Rightarrow> js_object \<Rightarrow> bridge_reply \<times> string list" where
  "onMessage pg message =
     (if property message ''action'' = Some ''getTranscript'' then
        (case v_param pg of
           None \<Rightarrow> (SendResponse [(''error'', ''No video ID found'')], [])
         | Some videoId \<Rightarrow>
             if videoId = [] then (SendResponse [(''error'', ''No video ID found'')], [])
             else
               (case fetch pg (url_for videoId) of
                  Json data \<Rightarrow> (SendResponse (on_data videoId data), [url_for videoId])
                | Rejected \<Rightarrow> (SendResponse [(''error'', ''Backend error.'')], [url_for videoId])
                | Unsettled \<Rightarrow> (Waiting, [url_for videoId])))
      else (Ignored, []))"


section \<open>The popup: the click handler of popup.js\<close>

text \<open>
  The state the handler works on: \<^verbatim>\<open>chrome.storage.local\<close> (a key-value store; \<^verbatim>\<open>set\<close>
  replaces the value of each key it is given and touches no other) and the four elements of
  the popup it writes to.
\<close>

datatype element_content = InnerHTML string | InnerText string

record popup =
  storage :: "string \<rightharpoonup> string"
  notesOutput :: element_content
  loading_display :: string
  generateBtn_disabled :: bool
  downloadBtn_hidden :: bool

text \<open>The click, up to the message it sends: the interface is reset.\<close>

definition generateNotes_click :: "popup \<Rightarrow> popup" where
  "generateNotes_click p =
     p\<lparr>notesOutput := InnerHTML [], loading_display := ''block'',
       generateBtn_disabled := True, downloadBtn_hidden := True\<rparr>"

text \<open>
  The callback of \<^verbatim>\<open>chrome.tabs.sendMessage\<close> runs with \<^verbatim>\<open>chrome.runtime.lastError\<close> set
  (no receiver, or the channel closed before a response) or with the response object.
\<close>

datatype message_outcome = LastError string | Response js_object

text \<open>\<^verbatim>\<open>{ [response.videoId]: rawNotes }\<close>: a computed key; \<^verbatim>\<open>undefined\<close> becomes its name.\<close>

definition computed_key :: "string option \<Rightarrow> string" where
  "computed_key v = (case v of None \<Rightarrow> ''undefined'' | Some s \<Rightarrow> s)"

text \<open>The callback; \<open>marked_parse\<close> is \<^verbatim>\<open>marked.parse\<close>, markdown to HTML.\<close>

definition sendMessage_callback ::
  "(string \<Rightarrow> string) \<Rightarrow> message_outcome \<Rightarrow> popup \<Rightarrow> popup" where
  "sendMessage_callback marked_parse outcome p0 =
     (let p = p0\<lparr>loading_display := ''none'', generateBtn_disabled := False\<rparr> in
        (case outcome of
           LastError message \<Rightarrow> p\<lparr>notesOutput := InnerText (''Error: '' @ message)\<rparr>
         | Response response \<Rightarrow>
             if truthy (property response ''notes'') then
               (let rawNotes = or_else (property response ''notes'') [];
                    htmlNotes = marked_parse rawNotes
                in p\<lparr>storage := (storage p)(computed_key (property response ''videoId'') \<mapsto> rawNotes),
                     notesOutput := InnerHTML htmlNotes,
                     downloadBtn_hidden := False\<rparr>)
             else if truthy (property response ''error'') then
               p\<lparr>notesOutput := InnerText (or_else (property response ''error'') [])\<rparr>
             else p))"

text \<open>One generation run of the popup: the click, then the callback.\<close>

definition generation_run ::
  "(string \<Rightarrow> string) \<Rightarrow> message_outcome \<Rightarrow> popup \<Rightarrow> popup" where
  "generation_run marked_parse outcome p =
     sendMessage_callback marked_parse outcome (generateNotes_click p)"


section \<open>Counting calls, and environments that answer every call the same way\<close>

text \<open>Calls to the transcript helper and to the generative model among the calls of a run.\<close>

fun fetcher_calls :: "call list \<Rightarrow> nat" where
  "fetcher_calls [] = 0"
| "fetcher_calls (Exec _ # cs) = Suc (fetcher_calls cs)"
| "fetcher_calls (GenerateContent _ # cs) = fetcher_calls cs"

fun summarizer_calls :: "call list \<Rightarrow> nat" where
  "summarizer_calls [] = 0"
| "summarizer_calls (Exec _ # cs) = summarizer_calls cs"
| "summarizer_calls (GenerateContent _ # cs) = Suc (summarizer_calls cs)"

text \<open>
  The inputs of the worked examples. \<open>decode_table\<close> agrees with \<^verbatim>\<open>JSON.parse\<close> on the texts
  the examples hand to it: the JSON string literals of \<open>transcript_A\<close> and of the empty
  string, which decode to these strings; the number \<^verbatim>\<open>123\<close>, which the template literal
  writes as \<^verbatim>\<open>123\<close>; and the text \<^verbatim>\<open>oops\<close>, which is no JSON, so that \<^verbatim>\<open>JSON.parse\<close> throws. No
  example relies on its answer for any other text.
\<close>

definition transcript_A :: string where
  "transcript_A = ''hello world this is a test''"

definition notes_A :: string where
  "notes_A = ''- point one'' @ [CHR 0x0A] @ ''- point two''"

definition stdout_A :: string where
  "stdout_A = [CHR 0x22] @ transcript_A @ [CHR 0x22, CHR 0x0A]"

definition decode_table :: "string \<Rightarrow> string option" where
  "decode_table s =
     (if s = [CHR 0x22] @ transcript_A @ [CHR 0x22] then Some transcript_A
      else if s = [CHR 0x22, CHR 0x22] then Some []
      else if s = ''123'' then Some ''123''
      else None)"

text \<open>
  Runs of command lines. \<open>exits\<close>: the line is the call of the helper alone, which exits with
  the given status after a second. \<open>never_exits\<close>: the helper hangs. \<open>injected_echo word\<close>:
  the run of \<^verbatim>\<open>python get_transcript.py x; echo word\<close>, the line the route builds for the
  video id \<^verbatim>\<open>x; echo word\<close>: the helper finds no transcript for \<^verbatim>\<open>x\<close> and exits with status 1,
  then \<^verbatim>\<open>echo\<close> prints the word and the shell exits with status 0. \<open>long_output\<close>: a helper
  that prints the JSON string of 1024 * 1024 letters and exits with status 0.
\<close>

definition exits :: "nat \<Rightarrow> string \<Rightarrow> string \<Rightarrow> command_run" where
  "exits status stdout stderr =
     \<lparr>helper_exit = Some status, shell_exit = Some status, run_ms = 1000,
      out = stdout, err = stderr\<rparr>"

definition never_exits :: command_run where
  "never_exits = \<lparr>helper_exit = None, shell_exit = None, run_ms = 0, out = [], err = []\<rparr>"

definition injected_echo :: "string \<Rightarrow> command_run" where
  "injected_echo word =
     \<lparr>helper_exit = Some 1, shell_exit = Some 0, run_ms = 1000,
      out = word @ [CHR 0x0A], err = ''Error: no transcript''\<rparr>"


definition backend_of :: "command_run \<Rightarrow> gen_outcome \<Rightarrow> backend" where
  "backend_of r g =
     \<lparr>shell = (\<lambda>command. r), JSON_parse = decode_table, generateContent = (\<lambda>prompt. g)\<rparr>"

definition page_of :: "string option \<Rightarrow> fetch_outcome \<Rightarrow> page" where
  "page_of v f = \<lparr>v_param = v, fetch = (\<lambda>url. f)\<rparr>"

definition getTranscript :: js_object where
  "getTranscript = [(''action'', ''getTranscript'')]"

definition popup_of :: "(string \<rightharpoonup> string) \<Rightarrow> popup" where
  "popup_of store =
     \<lparr>storage = store, notesOutput = InnerHTML [], loading_display = ''none'',
      generateBtn_disabled = False, downloadBtn_hidden = True\<rparr>"


section \<open>Unfolding the scripts\<close>

lemmas route_defs =
  app_get_transcript_def app_get_transcript_doc_def transcript_route_def exec_callback_def

lemmas exec_defs =
  exec_def child_process_exec_def exec_defaults_def byte_length_def

lemmas sample_defs =
  backend_of_def exits_def never_exits_def injected_echo_def decode_table_def stdout_A_def
  transcript_A_def trim_def is_space_def command_for_def


lemmas popup_defs = generation_run_def sendMessage_callback_def generateNotes_click_def

text \<open>\<^verbatim>\<open>join\<close> puts one separator before every element but the first.\<close>

lemma join_Cons: "join sep (x # xs) = x @ concat (map (\<lambda>y. sep @ y) xs)"
  by (induction xs arbitrary: x) simp_all

lemma join_space_empty_iff: "(join '' '' xs = []) = (xs = [] \<or> xs = [[]])"
  by (induction "'' ''" xs rule: join.induct) auto


section \<open>A request without a video id\<close>

text \<open>
  Claim C2. A request whose \<open>videoId\<close> is absent or empty gets
  \<^verbatim>\<open>400 {"error": "videoId is required"}\<close> from the route, in both listings, and the run makes
  no call at all: the helper is not spawned and the generative model is not asked. The
  listener of the content script, on a page whose URL has no \<^verbatim>\<open>v\<close> parameter (or an empty one),
  answers \<^verbatim>\<open>{error: "No video ID found"}\<close> and fetches nothing, so the server is not
  contacted.
\<close>

theorem invalid_request_no_calls:
  "app_get_transcript env None = (Responded 400 [(''error'', ''videoId is required'')], []) \<and>
   app_get_transcript env (Some []) = (Responded 400 [(''error'', ''videoId is required'')], []) \<and>
   app_get_transcript_doc env None = (Responded 400 [(''error'', ''videoId is required'')], []) \<and>
   app_get_transcript_doc env (Some []) = (Responded 400 [(''error'', ''videoId is required'')], []) \<and>
   fetcher_calls (snd (app_get_transcript env None)) = 0 \<and>
   summarizer_calls (snd (app_get_transcript env None)) = 0 \<and>
   fetcher_calls (snd (app_get_transcript env (Some []))) = 0 \<and>
   summarizer_calls (snd (app_get_transcript env (Some []))) = 0 \<and>
   onMessage \<lparr>v_param = None, fetch = f\<rparr> getTranscript =
     (SendResponse [(''error'', ''No video ID found'')], []) \<and>
   onMessage \<lparr>v_param = Some [], fetch = f\<rparr> getTranscript =
     (SendResponse [(''error'', ''No video ID found'')], [])"
  by (simp add: route_defs onMessage_def getTranscript_def property_def)


section \<open>A failing transcript helper\<close>

text \<open>
  What \<^verbatim>\<open>if (error)\<close> does: when \<^verbatim>\<open>exec\<close> hands the callback an error, the route answers
  \<^verbatim>\<open>500 {"error": "Failed to fetch transcript"}\<close> and the only call of the run is the one to
  the helper. \<^verbatim>\<open>exec\<close> does so when the command line exits with a status other than 0.
\<close>

lemma exec_error_skips_summarizer:
  assumes "videoId \<noteq> []"
    and "exec env (command_for videoId) = Callback (Some e) stdout stderr"
  shows "transcript_route success env (Some videoId) =
           (Responded 500 [(''error'', ''Failed to fetch transcript'')],
            [Exec (command_for videoId)])"
  using assms by (simp add: transcript_route_def exec_callback_def)

lemma nonzero_shell_exit_is_exec_error:
  assumes "shell_exit (shell env command) = Some status" and "status \<noteq> 0"
  shows "\<exists>e. exec env command = Callback (Some e) (out (shell env command)) (err (shell env command))"
  using assms by (simp add: exec_defs)

text \<open>
  Claim C3 says that a run in which the helper process exits with a status other than 0 ends
  in \<^verbatim>\<open>500 {"error": "Failed to fetch transcript"}\<close> without a call to the generative model.
  The route sees the status of the command line, not of the helper. The request carries
  \<^verbatim>\<open>videoId=x; echo 123\<close>: the helper exits with status 1, \<^verbatim>\<open>echo\<close> makes the shell exit with
  status 0, the output \<^verbatim>\<open>123\<close> is JSON, and the route calls the model once and answers 200.
\<close>

theorem failed_helper_masked_by_shell:
  "helper_exit (shell (backend_of (injected_echo ''123'') (Text notes_A))
      (command_for ''x; echo 123'')) = Some 1 \<and>
   app_get_transcript (backend_of (injected_echo ''123'') (Text notes_A)) (Some ''x; echo 123'') =
     (Responded 200 [(''notes'', notes_A), (''videoId'', ''x; echo 123'')],
      [Exec ''python get_transcript.py x; echo 123'', GenerateContent (prompt_for ''123'')]) \<and>
   summarizer_calls (snd (app_get_transcript (backend_of (injected_echo ''123'') (Text notes_A))
      (Some ''x; echo 123''))) = 1"
  by (simp add: route_defs exec_defs sample_defs)

section \<open>A successful generation\<close>




section \<open>A failing summarizer\<close>

text \<open>
  Claim C8, as amended. After a helper run that exits with status 0 and prints a JSON text,
  every failure of the generative call that reaches the route as an exception or a rejected
  promise (authentication, quota, network, a response the client library cannot read) gives
  \<^verbatim>\<open>500 {"error": "Failed to generate notes using Gemini"}\<close>, the same body whatever was
  thrown. An empty text is not such a failure: the route answers 200 with empty \<^verbatim>\<open>notes\<close>.
\<close>

theorem summarizer_exception_single_error:
  assumes "videoId \<noteq> []"
    and "exec env (command_for videoId) = Callback None stdout stderr"
    and "JSON_parse env (trim stdout) = Some transcript"
  shows "(generateContent env (prompt_for transcript) = Throws apiError \<longrightarrow>
            app_get_transcript env (Some videoId) =
              (Responded 500 [(''error'', ''Failed to generate notes using Gemini'')],
               [Exec (command_for videoId), GenerateContent (prompt_for transcript)]) \<and>
            app_get_transcript_doc env (Some videoId) =
              (Responded 500 [(''error'', ''Failed to generate notes using Gemini'')],
               [Exec (command_for videoId), GenerateContent (prompt_for transcript)])) \<and>
         (generateContent env (prompt_for transcript) = Text [] \<longrightarrow>
            app_get_transcript env (Some videoId) =
              (Responded 200 [(''notes'', []), (''videoId'', videoId)],
               [Exec (command_for videoId), GenerateContent (prompt_for transcript)]) \<and>
            app_get_transcript_doc env (Some videoId) =
              (Responded 200 [(''notes'', [])],
               [Exec (command_for videoId), GenerateContent (prompt_for transcript)]))"
  using assms by (simp add: route_defs)

text \<open>A quota rejection and a rejected key give the same response.\<close>

theorem summarizer_exception_witness:
  "app_get_transcript
     (backend_of (exits 0 stdout_A []) (Throws ''429 Too Many Requests: quota exceeded''))
     (Some ''abc123'') =
     (Responded 500 [(''error'', ''Failed to generate notes using Gemini'')],
      [Exec ''python get_transcript.py abc123'', GenerateContent (prompt_for transcript_A)]) \<and>
   app_get_transcript
     (backend_of (exits 0 stdout_A []) (Throws ''API key not valid''))
     (Some ''abc123'') =
     (Responded 500 [(''error'', ''Failed to generate notes using Gemini'')],
      [Exec ''python get_transcript.py abc123'', GenerateContent (prompt_for transcript_A)])"
  using summarizer_exception_single_error [of "''abc123''"
      "backend_of (exits 0 stdout_A []) (Throws ''429 Too Many Requests: quota exceeded'')"
      stdout_A "[]" transcript_A "''429 Too Many Requests: quota exceeded''"]
    summarizer_exception_single_error [of "''abc123''"
      "backend_of (exits 0 stdout_A []) (Throws ''API key not valid'')"
      stdout_A "[]" transcript_A "''API key not valid''"]
  by (simp add: exec_defs sample_defs)

text \<open>
  Claim C8 as stated fails for the empty provider response: the route's answer is a 200, not
  the 500 of a failed summarization.
\<close>

theorem empty_provider_response_is_not_an_error:
  "fst (app_get_transcript (backend_of (exits 0 stdout_A []) (Text [])) (Some ''abc123'')) =
     Responded 200 [(''notes'', []), (''videoId'', ''abc123'')] \<and>
   fst (app_get_transcript (backend_of (exits 0 stdout_A []) (Text [])) (Some ''abc123'')) \<noteq>
     Responded 500 [(''error'', ''Failed to generate notes using Gemini'')]"
  by (simp add: route_defs exec_defs sample_defs)


section \<open>Calls that never complete\<close>




section \<open>Helper output that is no JSON\<close>

text \<open>
  Claim C6 says that a helper run which exits with status 0 and prints something that is no
  JSON still gets a retrieval-failure response. The route does not do that:
  \<^verbatim>\<open>JSON.parse\<close> stands outside the \<^verbatim>\<open>try\<close>, its \<^verbatim>\<open>SyntaxError\<close> leaves the callback, and no
  response is written. Here the request carries \<^verbatim>\<open>videoId=x; echo oops\<close>: the shell runs the
  helper, which fails, and then \<^verbatim>\<open>echo\<close>, so the command exits with status 0 and its output
  is \<^verbatim>\<open>oops\<close>.
\<close>

theorem malformed_output_escapes_handler:
  "app_get_transcript
     (backend_of (injected_echo ''oops'') (Text notes_A))
     (Some ''x; echo oops'') =
     (Uncaught ''SyntaxError'', [Exec ''python get_transcript.py x; echo oops''])"
  by (simp add: route_defs exec_defs sample_defs)

text \<open>The same for every helper output that \<^verbatim>\<open>JSON.parse\<close> rejects, in both listings.\<close>

lemma undecodable_output_uncaught:
  assumes "videoId \<noteq> []"
    and "exec env (command_for videoId) = Callback None stdout stderr"
    and "JSON_parse env (trim stdout) = None"
  shows "transcript_route success env (Some videoId) =
           (Uncaught ''SyntaxError'', [Exec (command_for videoId)])"
  using assms by (simp add: transcript_route_def exec_callback_def)


section \<open>What the helper prints\<close>

text \<open>
  Claim C5, as amended. When the transcript API returns its entries without raising, the
  helper prints the JSON encoding of the \<^verbatim>\<open>text\<close> fields joined in the order the API returned
  them, one space between neighbours, and exits with status 0. The joined text may be
  empty, namely when there is no entry or a single entry with empty text: the script checks
  for no such case, and the run still counts as a success.
\<close>

theorem fetch_success_prints_joined_text:
  assumes "api video_id = Returns transcript"
  shows "get_transcript api (script # video_id # rest) =
           Printed (join '' '' (map entry_text transcript)) \<and>
         exit_status (get_transcript api (script # video_id # rest)) = 0 \<and>
         join '' '' (map entry_text transcript) =
           (case transcript of
              [] \<Rightarrow> []
            | e # es \<Rightarrow> entry_text e @ concat (map (\<lambda>x. '' '' @ entry_text x) es)) \<and>
         ((join '' '' (map entry_text transcript) = []) =
            (transcript = [] \<or> map entry_text transcript = [[]]))"
  using assms
  by (simp add: get_transcript_def join_Cons join_space_empty_iff comp_def split: list.splits)

text \<open>Three entries in time order.\<close>

theorem fetch_success_witness:
  "get_transcript
     (\<lambda>id. Returns [\<lparr>entry_text = ''hello world'', start = 0::nat, duration = 2\<rparr>,
                     \<lparr>entry_text = ''this is'', start = 2, duration = 1\<rparr>,
                     \<lparr>entry_text = ''a test'', start = 3, duration = 2\<rparr>])
     [''get_transcript.py'', ''abc123''] = Printed ''hello world this is a test''"
  using fetch_success_prints_joined_text [of
      "\<lambda>id. Returns [\<lparr>entry_text = ''hello world'', start = 0::nat, duration = 2\<rparr>,
                     \<lparr>entry_text = ''this is'', start = 2, duration = 1\<rparr>,
                     \<lparr>entry_text = ''a test'', start = 3, duration = 2\<rparr>]"
      "''abc123''" _ "''get_transcript.py''" "[]"]
  by simp

text \<open>
  Claim C5 as stated fails: a transcript with no entry, or with one entry of empty text, is
  printed as the empty string with exit status 0, and the route, given that output, goes on
  to call the model with an empty transcript and answers 200.
\<close>

theorem empty_transcript_is_a_success:
  "get_transcript (\<lambda>id. Returns ([] :: nat entry list)) [''get_transcript.py'', ''abc123''] =
     Printed [] \<and>
   exit_status
     (get_transcript (\<lambda>id. Returns ([] :: nat entry list)) [''get_transcript.py'', ''abc123'']) =
     0 \<and>
   get_transcript (\<lambda>id. Returns [\<lparr>entry_text = [], start = 0::nat, duration = 1\<rparr>])
     [''get_transcript.py'', ''abc123''] = Printed [] \<and>
   app_get_transcript (backend_of (exits 0 [CHR 0x22, CHR 0x22, CHR 0x0A] []) (Text notes_A))
     (Some ''abc123'') =
     (Responded 200 [(''notes'', notes_A), (''videoId'', ''abc123'')],
      [Exec ''python get_transcript.py abc123'', GenerateContent (prompt_for [])])"
  by (simp add: get_transcript_def route_defs exec_defs sample_defs)


section \<open>The store of notes\<close>

text \<open>
  Claim C4. A run that fails, by a transport error (\<^verbatim>\<open>chrome.runtime.lastError\<close> is set) or by
  a response that carries no notes, leaves the store exactly as it was, no entry changed
  and none added, hides the loading indicator and enables the button again. The store
  changes only in a run whose response carries notes.
\<close>

theorem failed_run_leaves_store:
  "storage (generation_run marked_parse (LastError message) p) = storage p \<and>
   loading_display (generation_run marked_parse (LastError message) p) = ''none'' \<and>
   generateBtn_disabled (generation_run marked_parse (LastError message) p) = False \<and>
   (\<not> truthy (property response ''notes'') \<longrightarrow>
      storage (generation_run marked_parse (Response response) p) = storage p \<and>
      loading_display (generation_run marked_parse (Response response) p) = ''none'' \<and>
      generateBtn_disabled (generation_run marked_parse (Response response) p) = False) \<and>
   (storage (generation_run marked_parse outcome p) \<noteq> storage p \<longrightarrow>
      (\<exists>r. outcome = Response r \<and> truthy (property r ''notes'')))"
  by (cases outcome) (simp_all add: popup_defs Let_def)

text \<open>A closed channel and an error response, with a note for \<^verbatim>\<open>abc123\<close> already stored.\<close>

theorem failed_run_witness:
  "storage (generation_run (\<lambda>md. md)
      (LastError ''The message port closed before a response was received.'')
      (popup_of [''abc123'' \<mapsto> notes_A])) = [''abc123'' \<mapsto> notes_A] \<and>
   storage (generation_run (\<lambda>md. md) (Response [(''error'', ''Failed to fetch transcript'')])
      (popup_of [''abc123'' \<mapsto> notes_A])) = [''abc123'' \<mapsto> notes_A] \<and>
   loading_display (generation_run (\<lambda>md. md) (Response [(''error'', ''Failed to fetch transcript'')])
      (popup_of [''abc123'' \<mapsto> notes_A])) = ''none''"
  using failed_run_leaves_store [of "\<lambda>md. md"
      "''The message port closed before a response was received.''"
      "popup_of [''abc123'' \<mapsto> notes_A]" "[(''error'', ''Failed to fetch transcript'')]"
      "LastError ''x''"]
  by (simp add: popup_of_def truthy_def property_def)

text \<open>
  Claim C9. Two successful generations for the same video id leave the store with the note
  of the second under that id: the second run replaces the value, the set of keys after it
  is the set of keys after the first, and every other key keeps its value.
\<close>

theorem second_generation_overwrites:
  assumes "property r1 ''videoId'' = Some videoId"
    and "property r1 ''notes'' = Some n1" and "n1 \<noteq> []"
    and "property r2 ''videoId'' = Some videoId"
    and "property r2 ''notes'' = Some n2" and "n2 \<noteq> []"
  shows "storage (generation_run mp (Response r2) (generation_run mp (Response r1) p)) =
           (storage p)(videoId \<mapsto> n2) \<and>
         storage (generation_run mp (Response r2) (generation_run mp (Response r1) p)) videoId =
           Some n2 \<and>
         dom (storage (generation_run mp (Response r2) (generation_run mp (Response r1) p))) =
           dom (storage (generation_run mp (Response r1) p)) \<and>
         dom (storage (generation_run mp (Response r1) p)) = insert videoId (dom (storage p))"
  using assms by (simp add: popup_defs Let_def truthy_def or_else_def computed_key_def)

text \<open>Two generations for \<^verbatim>\<open>abc123\<close> beside a note stored for another video.\<close>

theorem second_generation_witness:
  "storage (generation_run (\<lambda>md. md)
     (Response [(''notes'', ''- second''), (''videoId'', ''abc123'')])
     (generation_run (\<lambda>md. md) (Response [(''notes'', ''- first''), (''videoId'', ''abc123'')])
        (popup_of [''other'' \<mapsto> ''- kept'']))) =
   [''other'' \<mapsto> ''- kept'', ''abc123'' \<mapsto> ''- second'']"
  using second_generation_overwrites [of "[(''notes'', ''- first''), (''videoId'', ''abc123'')]"
      "''abc123''" "''- first''" "[(''notes'', ''- second''), (''videoId'', ''abc123'')]"
      "''- second''" "\<lambda>md. md" "popup_of [''other'' \<mapsto> ''- kept'']"]
  by (simp add: property_def popup_of_def)

text \<open>
  Claim C10. In a successful generation the \<^verbatim>\<open>videoId\<close> the listener sends to the popup is
  the \<^verbatim>\<open>v\<close> parameter of its own page, whatever the body fetched from the server holds
  besides non-empty notes, and the popup stores the note under that id.
\<close>

theorem stored_key_is_page_video_id:
  assumes "v_param pg = Some v" and "v \<noteq> []"
    and "fetch pg (url_for v) = Json data"
    and "property data ''notes'' = Some notes" and "notes \<noteq> []"
  shows "fst (onMessage pg getTranscript) = SendResponse [(''notes'', notes), (''videoId'', v)] \<and>
         storage (generation_run mp (Response [(''notes'', notes), (''videoId'', v)]) p) =
           (storage p)(v \<mapsto> notes)"
  using assms
  by (simp add: onMessage_def on_data_def getTranscript_def property_def popup_defs Let_def
      truthy_def or_else_def computed_key_def)

text \<open>A body whose \<^verbatim>\<open>videoId\<close> differs from the page's, and a body without one.\<close>

theorem stored_key_witness:
  "fst (onMessage (page_of (Some ''abc123'') (Json [(''notes'', notes_A), (''videoId'', ''zzz999'')]))
     getTranscript) = SendResponse [(''notes'', notes_A), (''videoId'', ''abc123'')] \<and>
   fst (onMessage (page_of (Some ''abc123'') (Json [(''notes'', notes_A)]))
     getTranscript) = SendResponse [(''notes'', notes_A), (''videoId'', ''abc123'')] \<and>
   storage (generation_run (\<lambda>md. md) (Response [(''notes'', notes_A), (''videoId'', ''abc123'')])
     (popup_of Map.empty)) = [''abc123'' \<mapsto> notes_A]"
  using stored_key_is_page_video_id [of
      "page_of (Some ''abc123'') (Json [(''notes'', notes_A), (''videoId'', ''zzz999'')])" "''abc123''"
      "[(''notes'', notes_A), (''videoId'', ''zzz999'')]" notes_A "\<lambda>md. md" "popup_of Map.empty"]
    stored_key_is_page_video_id [of
      "page_of (Some ''abc123'') (Json [(''notes'', notes_A)])" "''abc123''"
      "[(''notes'', notes_A)]" notes_A "\<lambda>md. md" "popup_of Map.empty"]
  by (simp add: page_of_def property_def notes_A_def popup_of_def)

end
